theory Spec2Isabelle
  imports Complex_Main "HOL-Library.Word" "HOL-Library.Sublist"
begin

unbundle bit_operations_syntax

chapter \<open>EchoLingua: audio codec helpers, playback scheduling and session lifecycle\<close>

text \<open>
  A shallow embedding of \<^verbatim>\<open>src/echolingua-ai/App.tsx\<close>. The pure helpers (\<^verbatim>\<open>decode\<close>,
  \<^verbatim>\<open>encode\<close>, \<^verbatim>\<open>decodeAudioData\<close>, \<^verbatim>\<open>createBlob\<close>) are HOL functions; the React
  components are records of their state hooks and refs, and every handler is a function
  from the state before to the state after. What a handler does to the outside world
  (alerts, console output, starting and stopping audio nodes, closing the session) is
  appended to an effect log kept in the state, in program order. What the outside world
  answers (the microphone permission, the responses of the remote models, the playback
  clock, the wall clock) is a parameter of the handler.

  Numbers. A JavaScript number is an IEEE double and a \<^verbatim>\<open>Float32Array\<close> holds IEEE singles.
  Finite samples and times are modelled as exact rationals. For the codec this loses
  nothing: a single times \<open>32768\<close> is exact in double precision, and an \<^verbatim>\<open>Int16\<close> divided by
  \<open>32768\<close> has at most 16 significant bits, so it is stored in a \<^verbatim>\<open>Float32Array\<close> without
  rounding. For the scheduler the sums and quotients of times are the exact ones; the
  rounding of double arithmetic is not modelled. \<open>NaN\<close> and the infinities are not values of
  the model.
\<close>

section \<open>Errors\<close>

datatype error =
    InvalidCharacterError
  | RangeError
  | NotSupportedError
  | TypeError
  | SyntaxError
  | NotAllowedError
  | ApiError

section \<open>Base64: the platform functions \<^verbatim>\<open>btoa\<close> and \<^verbatim>\<open>atob\<close>\<close>

text \<open>
  \<^verbatim>\<open>btoa\<close> encodes a binary string (every code unit below 256, which is what a \<open>char\<close> is
  here) with the standard alphabet and \<^verbatim>\<open>=\<close> padding. \<^verbatim>\<open>atob\<close> is the forgiving decoder of
  the HTML standard: it drops ASCII whitespace, removes one or two trailing \<^verbatim>\<open>=\<close> when the
  length is a multiple of four, raises \<^verbatim>\<open>InvalidCharacterError\<close> when the remaining length is
  1 modulo 4 or a character is outside the alphabet, and discards the left-over bits of a
  final group of two or three characters. \<open>b64_char\<close> is applied to six-bit values only.
\<close>

definition b64_alphabet :: string where
  "b64_alphabet = ''ABCDEFGHIJKLMNOPQRSTUVWXYZabcdefghijklmnopqrstuvwxyz0123456789+/''"

definition b64_char :: "nat \<Rightarrow> char" where
  "b64_char n = b64_alphabet ! n"

definition b64_index :: "char \<Rightarrow> nat option" where
  "b64_index c = map_of (zip b64_alphabet [0..<64]) c"

definition b64_value :: "char \<Rightarrow> nat" where
  "b64_value c = (case b64_index c of Some n \<Rightarrow> n | None \<Rightarrow> 0)"

fun btoa_groups :: "nat list \<Rightarrow> string" where
  "btoa_groups (a # b # c # rest) =
     (let n = a * 65536 + b * 256 + c
      in b64_char (n div 262144) # b64_char (n div 4096 mod 64) #
         b64_char (n div 64 mod 64) # b64_char (n mod 64) # btoa_groups rest)"
| "btoa_groups [a, b] =
     (let n = a * 65536 + b * 256
      in [b64_char (n div 262144), b64_char (n div 4096 mod 64),
          b64_char (n div 64 mod 64), CHR ''=''])"
| "btoa_groups [a] =
     (let n = a * 65536
      in [b64_char (n div 262144), b64_char (n div 4096 mod 64), CHR ''='', CHR ''=''])"
| "btoa_groups [] = []"

definition btoa :: "string \<Rightarrow> string" where
  "btoa binary = btoa_groups (map of_char binary)"

definition ascii_whitespace :: "char \<Rightarrow> bool" where
  "ascii_whitespace c = (c \<in> set [CHR 0x09, CHR 0x0A, CHR 0x0C, CHR 0x0D, CHR 0x20])"

definition strip_padding :: "string \<Rightarrow> string" where
  "strip_padding d =
     (case rev d of
        x # y # r \<Rightarrow> if x = CHR ''='' \<and> y = CHR ''='' then rev r
                     else if x = CHR ''='' then rev (y # r) else d
      | [x] \<Rightarrow> if x = CHR ''='' then [] else d
      | [] \<Rightarrow> d)"

fun atob_groups :: "nat list \<Rightarrow> nat list" where
  "atob_groups (a # b # c # d # rest) =
     (let n = a * 262144 + b * 4096 + c * 64 + d
      in (n div 65536) # (n div 256 mod 256) # (n mod 256) # atob_groups rest)"
| "atob_groups [a, b, c] =
     (let n = a * 4096 + b * 64 + c in [n div 1024, n div 4 mod 256])"
| "atob_groups [a, b] = (let n = a * 64 + b in [n div 16])"
| "atob_groups _ = []"

definition atob_body :: "string \<Rightarrow> error + nat list" where
  "atob_body d =
     (if length d mod 4 = 1 \<or> list_ex (\<lambda>c. b64_index c = None) d
      then Inl InvalidCharacterError
      else Inr (atob_groups (map b64_value d)))"

definition atob :: "string \<Rightarrow> error + string" where
  "atob base64 =
     (let d = filter (\<lambda>c. \<not> ascii_whitespace c) base64;
          d = (if length d mod 4 = 0 then strip_padding d else d)
      in case atob_body d of
           Inl e \<Rightarrow> Inl e
         | Inr bytes \<Rightarrow> Inr (map char_of bytes))"

section \<open>PCM codec helpers\<close>

type_synonym uint8 = "8 word"
type_synonym int16 = "16 word"

text \<open>
  \<^verbatim>\<open>decode\<close> (lines 8-16) and \<^verbatim>\<open>encode\<close> (lines 19-26): the loops copy code units to bytes
  and bytes to code units, one for one.
\<close>

definition decode :: "string \<Rightarrow> error + uint8 list" where
  "decode base64 =
     (case atob base64 of
        Inl e \<Rightarrow> Inl e
      | Inr binaryString \<Rightarrow> Inr (map (\<lambda>c. word_of_nat (of_char c)) binaryString))"

definition encode :: "uint8 list \<Rightarrow> string" where
  "encode bytes = btoa (map (\<lambda>b. char_of (unat b)) bytes)"

text \<open>
  Storing a number into an \<^verbatim>\<open>Int16Array\<close> applies \<^verbatim>\<open>ToInt16\<close>: the fraction is cut off
  towards zero and the integer is taken modulo \<open>2^16\<close>, which is what \<open>word_of_int\<close> does.
  There is no clamping.
\<close>

definition trunc :: "rat \<Rightarrow> int" where
  "trunc q = (if 0 \<le> q then \<lfloor>q\<rfloor> else \<lceil>q\<rceil>)"

definition ToInt16 :: "rat \<Rightarrow> int16" where
  "ToInt16 q = word_of_int (trunc q)"

text \<open>
  \<^verbatim>\<open>new Uint8Array(int16.buffer)\<close> and \<^verbatim>\<open>new Int16Array(data.buffer)\<close> are two views of
  the same bytes in the byte order of the platform, here little-endian. The second raises
  \<^verbatim>\<open>RangeError\<close> when the number of bytes is odd.
\<close>

fun Uint8Array_of :: "int16 list \<Rightarrow> uint8 list" where
  "Uint8Array_of [] = []"
| "Uint8Array_of (w # ws) = ucast w # ucast (drop_bit 8 w) # Uint8Array_of ws"

fun Int16Array_of :: "uint8 list \<Rightarrow> int16 list" where
  "Int16Array_of (lo # hi # rest) = (ucast lo OR push_bit 8 (ucast hi)) # Int16Array_of rest"
| "Int16Array_of _ = []"

definition new_Int16Array :: "uint8 list \<Rightarrow> error + int16 list" where
  "new_Int16Array buffer =
     (if odd (length buffer) then Inl RangeError else Inr (Int16Array_of buffer))"

record blob =
  blob_data :: string
  mimeType :: string

text \<open>\<^verbatim>\<open>createBlob\<close> (lines 50-60).\<close>

definition createBlob :: "rat list \<Rightarrow> blob" where
  "createBlob data =
     \<lparr>blob_data = encode (Uint8Array_of (map (\<lambda>x. ToInt16 (x * 32768)) data)),
      mimeType = ''audio/pcm;rate=16000''\<rparr>"

record audio_buffer =
  numberOfChannels :: nat
  buffer_length :: nat
  sampleRate :: nat
  channels :: "rat list list"

definition duration :: "audio_buffer \<Rightarrow> rat" where
  "duration b = of_nat (buffer_length b) / of_nat (sampleRate b)"

text \<open>
  \<^verbatim>\<open>createBuffer\<close> of the Web Audio API raises \<^verbatim>\<open>NotSupportedError\<close> when the channel
  count or the frame count is zero or an argument is outside the range the implementation
  supports. The bounds below are the ones every implementation has to accept (up to 32
  channels, 8000 Hz to 96000 Hz); a browser may accept more, so only the success of
  \<open>createBuffer\<close> inside the bounds is used in what follows. It does not depend on the
  state of the context, which is why the \<^verbatim>\<open>ctx\<close> argument of \<^verbatim>\<open>decodeAudioData\<close> is left out.
  A new buffer is silent.
\<close>

definition createBuffer :: "nat \<Rightarrow> nat \<Rightarrow> nat \<Rightarrow> error + audio_buffer" where
  "createBuffer numChannels len rate =
     (if numChannels < 1 \<or> 32 < numChannels \<or> len < 1 \<or> rate < 8000 \<or> 96000 < rate
      then Inl NotSupportedError
      else Inr \<lparr>numberOfChannels = numChannels, buffer_length = len, sampleRate = rate,
                channels = replicate numChannels (replicate len 0)\<rparr>)"

text \<open>
  \<^verbatim>\<open>decodeAudioData\<close> (lines 30-47). \<open>frameCount\<close> is the quotient as a number, not an
  integer; \<^verbatim>\<open>createBuffer\<close> truncates it and the inner loop runs while \<open>i < frameCount\<close>.
  When the division leaves a remainder the last round of the loop has \<open>i\<close> equal to the
  length of \<open>channelData\<close>: a typed array drops a store past its end, and so does
  \<open>list_update\<close>. In that round the read \<open>dataInt16[i * numChannels + channel]\<close> may also be
  past the end, where it is \<^verbatim>\<open>undefined\<close> and the quotient \<open>NaN\<close>; the store is the dropped
  one, so the model leaves \<open>channelData\<close> as it is.
\<close>

function fill_channel :: "int16 list \<Rightarrow> nat \<Rightarrow> nat \<Rightarrow> rat \<Rightarrow> nat \<Rightarrow> rat list \<Rightarrow> rat list" where
  "fill_channel dataInt16 numChannels channel frameCount i channelData =
     (if of_nat i < frameCount
      then fill_channel dataInt16 numChannels channel frameCount (Suc i)
             (if i * numChannels + channel < length dataInt16
              then channelData[i := of_int (sint (dataInt16 ! (i * numChannels + channel))) / 32768]
              else channelData)
      else channelData)"
  by pat_completeness auto
termination
proof (relation "measure (\<lambda>(d, n, c, fc, i, cd). nat \<lceil>fc\<rceil> - i)")
  show "wf (measure (\<lambda>(d, n, c, fc, i, cd). nat \<lceil>fc :: rat\<rceil> - i))" by simp
next
  fix dataInt16 :: "int16 list" and numChannels channel :: nat and frameCount :: rat
    and i :: nat and channelData :: "rat list"
  assume "of_nat i < frameCount"
  then have "int i < \<lceil>frameCount\<rceil>" by (simp add: less_ceiling_iff)
  then show "((dataInt16, numChannels, channel, frameCount, Suc i,
         if i * numChannels + channel < length dataInt16
         then channelData[i := of_int (sint (dataInt16 ! (i * numChannels + channel))) / 32768]
         else channelData),
        (dataInt16, numChannels, channel, frameCount, i, channelData))
       \<in> measure (\<lambda>(d, n, c, fc, i, cd). nat \<lceil>fc\<rceil> - i)"
    by simp
qed

declare fill_channel.simps [simp del]

function fill_channels :: "int16 list \<Rightarrow> nat \<Rightarrow> rat \<Rightarrow> nat \<Rightarrow> audio_buffer \<Rightarrow> audio_buffer" where
  "fill_channels dataInt16 numChannels frameCount channel buffer =
     (if channel < numChannels
      then fill_channels dataInt16 numChannels frameCount (Suc channel)
             (buffer\<lparr>channels := (channels buffer)
                [channel := fill_channel dataInt16 numChannels channel frameCount 0
                              (channels buffer ! channel)]\<rparr>)
      else buffer)"
  by pat_completeness auto
termination
  by (relation "measure (\<lambda>(d, n, fc, c, b). n - c)") auto

declare fill_channels.simps [simp del]

definition decodeAudioData :: "uint8 list \<Rightarrow> nat \<Rightarrow> nat \<Rightarrow> error + audio_buffer" where
  "decodeAudioData data rate numChannels =
     (case new_Int16Array data of
        Inl e \<Rightarrow> Inl e
      | Inr dataInt16 \<Rightarrow>
          (let frameCount = of_nat (length dataInt16) / of_nat numChannels :: rat
           in case createBuffer numChannels (nat \<lfloor>frameCount\<rfloor>) rate of
                Inl e \<Rightarrow> Inl e
              | Inr buffer \<Rightarrow> Inr (fill_channels dataInt16 numChannels frameCount 0 buffer)))"

text \<open>
  The two directions under the names of the specification: \<open>encodeSamples\<close> is the
  \<^verbatim>\<open>data\<close> field of \<^verbatim>\<open>createBlob\<close>, and \<open>decodeToAudioBuffer\<close> is the composition
  \<^verbatim>\<open>decodeAudioData(decode(base64Audio), audioCtx, 24000, 1)\<close> of lines 223 and 449, for any
  rate and channel count.
\<close>

definition encodeSamples :: "rat list \<Rightarrow> string" where
  "encodeSamples x = blob_data (createBlob x)"

definition decodeToAudioBuffer :: "string \<Rightarrow> nat \<Rightarrow> nat \<Rightarrow> error + audio_buffer" where
  "decodeToAudioBuffer base64 rate numChannels =
     (case decode base64 of
        Inl e \<Rightarrow> Inl e
      | Inr data \<Rightarrow> decodeAudioData data rate numChannels)"

text \<open>The sample that frame \<open>i\<close> of channel \<open>c\<close> holds after decoding \<open>n\<close> interleaved channels.\<close>

definition pcm_value :: "int16 list \<Rightarrow> nat \<Rightarrow> nat \<Rightarrow> nat \<Rightarrow> rat" where
  "pcm_value d n c i = of_int (sint (d ! (i * n + c))) / 32768"

section \<open>Strings and JSON values\<close>

text \<open>
  Strings are lists of characters with code points below 256. \<^verbatim>\<open>String.prototype.trim\<close>
  removes white space and line terminators from both ends; below 256 these are TAB, LF,
  VT, FF, CR, SP and NBSP.
\<close>

definition js_whitespace :: "char \<Rightarrow> bool" where
  "js_whitespace c =
     (c \<in> set [CHR 0x09, CHR 0x0A, CHR 0x0B, CHR 0x0C, CHR 0x0D, CHR 0x20, CHR 0xA0])"

definition trim :: "string \<Rightarrow> string" where
  "trim s = rev (dropWhile js_whitespace (rev (dropWhile js_whitespace s)))"

text \<open>
  The values \<^verbatim>\<open>JSON.parse\<close> returns. The parser itself belongs to the platform: the handlers
  below take it as a parameter \<open>JSON_parse\<close>, with \<open>Inl\<close> for the \<^verbatim>\<open>SyntaxError\<close> it raises,
  and what is proved about them holds for every parser.
\<close>

datatype json =
    JNull
  | JBool bool
  | JNumber rat
  | JString string
  | JArray "json list"
  | JObject "(string \<times> json) list"

text \<open>Reading a property: the last of several members with the same key wins.\<close>

definition json_get :: "json \<Rightarrow> string \<Rightarrow> json option" where
  "json_get v key = (case v of JObject members \<Rightarrow> map_of (rev members) key | _ \<Rightarrow> None)"

section \<open>Effects and platform objects\<close>

datatype effect =
    Alert string
  | ConsoleError string
  | ConsoleLog string
  | SessionClosed
  | TracksStopped
  | ProcessorDisconnected
  | InputContextClosed
  | OutputContextClosed
  | SourceStart nat rat
  | SourceStartNow rat rat
  | SourceStop nat
  | SendRealtimeInput blob

datatype theme = light | dark

record AppSettings =
  theme :: theme
  volume :: rat
  playbackRate :: rat

text \<open>The settings \<^verbatim>\<open>getInitialSettings\<close> falls back to when the system prefers a light theme.\<close>

definition defaultSettings :: AppSettings where
  "defaultSettings = \<lparr>theme = light, volume = 1, playbackRate = 1\<rparr>"

record TranscriptEntry =
  entry_id :: int
  speaker :: string
  entry_text :: string

datatype context_state = running | suspended | closed

record audio_context =
  context_sampleRate :: nat
  context_state :: context_state

datatype media_stream = MediaStream nat

datatype script_processor = ScriptProcessor nat

record live_session =
  close_throws :: bool

text \<open>
  A promise is given by the way it settles. A handler that awaits it is modelled from the
  moment of settlement on, as one atomic step: the handlers run on a single thread and give
  up control only at an \<^verbatim>\<open>await\<close>.
\<close>

datatype 'a promise = Fulfilled 'a | Rejected error

record source_node =
  node_id :: nat
  source_buffer :: audio_buffer
  source_playbackRate :: rat
  source_gain :: rat

section \<open>The interpreter view: state\<close>

text \<open>
  The state hooks and refs of \<^verbatim>\<open>TranslationView\<close> (lines 339-353). \<open>audioSourcesRef\<close> is a
  JavaScript \<^verbatim>\<open>Set\<close>, kept as the list of its members in insertion order; a node is
  identified by \<open>node_id\<close>, taken from the counter \<open>nodes_created\<close>.
\<close>

record TranslationView =
  isSessionActive :: bool
  transcripts :: "TranscriptEntry list"
  interimTranscript :: string
  sessionPromiseRef :: "live_session promise option"
  inputAudioContextRef :: "audio_context option"
  outputAudioContextRef :: "audio_context option"
  microphoneStreamRef :: "media_stream option"
  scriptProcessorRef :: "script_processor option"
  nextStartTimeRef :: rat
  audioSourcesRef :: "source_node list"
  currentTextRef :: string
  effects :: "effect list"
  nodes_created :: nat

definition initialTranslationView :: TranslationView where
  "initialTranslationView =
     \<lparr>isSessionActive = False, transcripts = [], interimTranscript = [],
      sessionPromiseRef = None, inputAudioContextRef = None, outputAudioContextRef = None,
      microphoneStreamRef = None, scriptProcessorRef = None, nextStartTimeRef = 0,
      audioSourcesRef = [], currentTextRef = [], effects = [], nodes_created = 0\<rparr>"

definition emit :: "effect list \<Rightarrow> TranslationView \<Rightarrow> TranslationView" where
  "emit es st = st\<lparr>effects := effects st @ es\<rparr>"

section \<open>Session lifecycle\<close>

text \<open>\<^verbatim>\<open>handleStopSession\<close> (lines 361-383).\<close>

definition handleStopSession :: "TranslationView \<Rightarrow> TranslationView" where
  "handleStopSession st =
     (case sessionPromiseRef st of
        None \<Rightarrow> st
      | Some p \<Rightarrow>
          (let st1 = (case p of
                        Fulfilled session \<Rightarrow>
                          if close_throws session
                          then emit [ConsoleError ''Error closing session:''] st
                          else emit [SessionClosed] st
                      | Rejected e \<Rightarrow> emit [ConsoleError ''Error closing session:''] st);
               st2 = emit ((if microphoneStreamRef st1 = None then [] else [TracksStopped]) @
                           (if scriptProcessorRef st1 = None then [] else [ProcessorDisconnected]) @
                           (if inputAudioContextRef st1 = None then [] else [InputContextClosed]) @
                           (if outputAudioContextRef st1 = None then [] else [OutputContextClosed]))
                        st1
           in st2\<lparr>sessionPromiseRef := None, microphoneStreamRef := None,
                  scriptProcessorRef := None, inputAudioContextRef := None,
                  outputAudioContextRef := None, isSessionActive := False\<rparr>))"

text \<open>
  \<^verbatim>\<open>handleStartSession\<close> (lines 385-493). The environment says how each fallible call of
  the \<^verbatim>\<open>try\<close> block ends: \<^verbatim>\<open>getUserMedia\<close>, the two \<^verbatim>\<open>AudioContext\<close> constructors, and
  the construction of the client with \<^verbatim>\<open>ai.live.connect\<close>, whose promise is stored without
  being awaited. The handler gives up control once, at \<^verbatim>\<open>await getUserMedia\<close>:
  \<open>handleStartSession_begin\<close> is the part before it (lines 386-389), whose result is the state
  the component shows while the permission request is pending, and
  \<open>handleStartSession_resume\<close> the part after it.
\<close>

record start_env =
  getUserMedia :: "error + media_stream"
  newInputContext :: "error + audio_context"
  newOutputContext :: "error + audio_context"
  connect :: "error + live_session promise"

definition handleStartSession_begin :: "TranslationView \<Rightarrow> TranslationView" where
  "handleStartSession_begin st =
     st\<lparr>isSessionActive := True, interimTranscript := [], currentTextRef := [],
        nextStartTimeRef := 0\<rparr>"

definition handleStartSession_catch :: "TranslationView \<Rightarrow> TranslationView" where
  "handleStartSession_catch st =
     (emit [ConsoleError ''Failed to start session:'',
            Alert ''Could not start microphone. Please check permissions.''] st)
     \<lparr>isSessionActive := False\<rparr>"

definition handleStartSession_resume :: "start_env \<Rightarrow> TranslationView \<Rightarrow> TranslationView" where
  "handleStartSession_resume env st =
     (case getUserMedia env of
        Inl e \<Rightarrow> handleStartSession_catch st
      | Inr stream \<Rightarrow>
          (let st1 = st\<lparr>microphoneStreamRef := Some stream\<rparr>
           in case newInputContext env of
                Inl e \<Rightarrow> handleStartSession_catch st1
              | Inr input \<Rightarrow>
                  (let st2 = st1\<lparr>inputAudioContextRef := Some input\<rparr>
                   in case newOutputContext env of
                        Inl e \<Rightarrow> handleStartSession_catch st2
                      | Inr output \<Rightarrow>
                          (let st3 = st2\<lparr>outputAudioContextRef := Some output\<rparr>
                           in case connect env of
                                Inl e \<Rightarrow> handleStartSession_catch st3
                              | Inr p \<Rightarrow> st3\<lparr>sessionPromiseRef := Some p\<rparr>))))"

definition handleStartSession :: "start_env \<Rightarrow> TranslationView \<Rightarrow> TranslationView" where
  "handleStartSession env st = handleStartSession_resume env (handleStartSession_begin st)"

text \<open>The states the component goes through during one start attempt, in order.\<close>

definition handleStartSession_states :: "start_env \<Rightarrow> TranslationView \<Rightarrow> TranslationView list" where
  "handleStartSession_states env st =
     [handleStartSession_begin st, handleStartSession env st]"

section \<open>Session callbacks\<close>

text \<open>\<^verbatim>\<open>onopen\<close> (lines 413-429) and the audio-processing callback it installs (lines 418-426).\<close>

definition onopen :: "TranslationView \<Rightarrow> error option \<times> TranslationView" where
  "onopen st =
     (case inputAudioContextRef st of
        None \<Rightarrow> (Some TypeError, st)
      | Some ctx \<Rightarrow> (None, st\<lparr>scriptProcessorRef := Some (ScriptProcessor 4096)\<rparr>))"

definition onaudioprocess :: "rat list \<Rightarrow> TranslationView \<Rightarrow> TranslationView" where
  "onaudioprocess inputData st =
     (let pcmBlob = createBlob inputData
      in case sessionPromiseRef st of
           None \<Rightarrow> st
         | Some (Fulfilled session) \<Rightarrow> emit [SendRealtimeInput pcmBlob] st
         | Some (Rejected e) \<Rightarrow> st)"

text \<open>
  A server message, reduced to what \<^verbatim>\<open>onmessage\<close> reads of it (lines 430-477):
  \<open>inputTranscription\<close> is \<open>None\<close> when the member is absent, \<open>Some None\<close> when it is there
  without a \<^verbatim>\<open>text\<close>, in which case \<^verbatim>\<open>+=\<close> appends the string \<^verbatim>\<open>undefined\<close>; \<open>inlineData\<close> is the
  value of the optional chain of line 445.
\<close>

record LiveServerMessage =
  inputTranscription :: "string option option"
  turnComplete :: bool
  inlineData :: "string option"
  interrupted :: bool

definition onInputTranscription :: "LiveServerMessage \<Rightarrow> TranslationView \<Rightarrow> TranslationView" where
  "onInputTranscription message st =
     (case inputTranscription message of
        None \<Rightarrow> st
      | Some t \<Rightarrow>
          (let current = currentTextRef st @ (case t of None \<Rightarrow> ''undefined'' | Some s \<Rightarrow> s)
           in st\<lparr>currentTextRef := current, interimTranscript := current\<rparr>))"

definition onTurnComplete :: "int \<Rightarrow> LiveServerMessage \<Rightarrow> TranslationView \<Rightarrow> TranslationView" where
  "onTurnComplete now message st =
     (if turnComplete message
      then (let text = currentTextRef st;
                st1 = (if trim text \<noteq> []
                       then st\<lparr>transcripts := transcripts st @
                                 [\<lparr>entry_id = now, speaker = ''user'', entry_text = text\<rparr>]\<rparr>
                       else st)
            in st1\<lparr>currentTextRef := [], interimTranscript := []\<rparr>)
      else st)"

text \<open>
  The audio branch (lines 445-468). \<open>settings\<close> are the settings the callback closed over,
  \<open>currentTime\<close> is the clock of the output context. An exception (no output context, a
  payload that is not base64, an odd number of bytes, no frame) ends the handler with the
  state as it is at that point, the cursor already raised to the clock. The promise awaited
  at line 449 is settled when it is awaited, so the handler resumes before another message
  is delivered and the branch is one step.
\<close>

definition onAudio ::
  "AppSettings \<Rightarrow> rat \<Rightarrow> LiveServerMessage \<Rightarrow> TranslationView \<Rightarrow> error option \<times> TranslationView" where
  "onAudio settings currentTime message st =
     (case inlineData message of
        None \<Rightarrow> (None, st)
      | Some base64Audio \<Rightarrow>
          if base64Audio = [] then (None, st)
          else (case outputAudioContextRef st of
                  None \<Rightarrow> (Some TypeError, st)
                | Some audioCtx \<Rightarrow>
                    (let st1 = st\<lparr>nextStartTimeRef := max (nextStartTimeRef st) currentTime\<rparr>
                     in case decodeToAudioBuffer base64Audio 24000 1 of
                          Inl e \<Rightarrow> (Some e, st1)
                        | Inr audioBuffer \<Rightarrow>
                            (let sourceNode = \<lparr>node_id = nodes_created st1,
                                               source_buffer = audioBuffer,
                                               source_playbackRate = playbackRate settings,
                                               source_gain = volume settings\<rparr>;
                                 st2 = emit [SourceStart (node_id sourceNode) (nextStartTimeRef st1)] st1
                             in (None,
                                 st2\<lparr>nextStartTimeRef :=
                                        nextStartTimeRef st2 + duration audioBuffer / playbackRate settings,
                                      audioSourcesRef := audioSourcesRef st2 @ [sourceNode],
                                      nodes_created := Suc (nodes_created st2)\<rparr>)))))"

text \<open>
  The interrupt branch (lines 470-476). The loop iterates over the live set while deleting
  from it: each round takes the first member still there, stops it and deletes it.
\<close>

function stopSources :: "TranslationView \<Rightarrow> TranslationView" where
  "stopSources st =
     (case audioSourcesRef st of
        [] \<Rightarrow> st
      | source # rest \<Rightarrow>
          stopSources
            ((emit [SourceStop (node_id source)] st)
             \<lparr>audioSourcesRef :=
                filter (\<lambda>s. node_id s \<noteq> node_id source) (audioSourcesRef st)\<rparr>))"
  by pat_completeness auto
termination
proof (relation "measure (\<lambda>st. length (audioSourcesRef st))")
  show "wf (measure (\<lambda>st. length (audioSourcesRef st)))" by simp
next
  fix st :: TranslationView and source rest
  assume a: "audioSourcesRef st = source # rest"
  show "((emit [SourceStop (node_id source)] st)
             \<lparr>audioSourcesRef :=
                filter (\<lambda>s. node_id s \<noteq> node_id source) (audioSourcesRef st)\<rparr>, st)
        \<in> measure (\<lambda>st. length (audioSourcesRef st))"
    using a by (simp add: emit_def le_imp_less_Suc)
qed

declare stopSources.simps [simp del]

definition onInterrupted :: "LiveServerMessage \<Rightarrow> TranslationView \<Rightarrow> TranslationView" where
  "onInterrupted message st =
     (if interrupted message then (stopSources st)\<lparr>nextStartTimeRef := 0\<rparr> else st)"

text \<open>
  \<^verbatim>\<open>onmessage\<close>: the four branches in the order of the source. The first component of the
  result is the exception the handler ended with, if any; the interrupt branch is reached
  only when the audio branch raised none.
\<close>

definition onmessage ::
  "AppSettings \<Rightarrow> rat \<Rightarrow> int \<Rightarrow> LiveServerMessage \<Rightarrow> TranslationView \<Rightarrow> error option \<times> TranslationView" where
  "onmessage settings currentTime now message st =
     (case onAudio settings currentTime message
             (onTurnComplete now message (onInputTranscription message st)) of
        (Some e, st1) \<Rightarrow> (Some e, st1)
      | (None, st1) \<Rightarrow> (None, onInterrupted message st1))"

text \<open>\<^verbatim>\<open>onerror\<close>, \<^verbatim>\<open>onclose\<close> (lines 478-484) and the \<^verbatim>\<open>ended\<close> listener of a node (lines 461-463).\<close>

definition onerror :: "TranslationView \<Rightarrow> TranslationView" where
  "onerror st = handleStopSession (emit [ConsoleError ''Session error:''] st)"

definition onclose :: "TranslationView \<Rightarrow> TranslationView" where
  "onclose st = emit [ConsoleLog ''Session closed.''] st"

definition onended :: "nat \<Rightarrow> TranslationView \<Rightarrow> TranslationView" where
  "onended node st =
     st\<lparr>audioSourcesRef := filter (\<lambda>s. node_id s \<noteq> node) (audioSourcesRef st)\<rparr>"

text \<open>
  Everything that can happen to the interpreter view, and a run of such events. The effect
  hook of lines 495-500 calls \<^verbatim>\<open>handleStopSession\<close> when the active flag falls back to false
  or the component goes away; that is one more \<open>StopSession\<close>.
\<close>

datatype event =
    StartSession start_env
  | StopSession
  | SessionOpen
  | SessionMessage rat int LiveServerMessage
  | SessionError
  | SessionClose
  | SourceEnded nat
  | AudioProcess "rat list"

fun step :: "AppSettings \<Rightarrow> event \<Rightarrow> TranslationView \<Rightarrow> TranslationView" where
  "step settings (StartSession env) st = handleStartSession env st"
| "step settings StopSession st = handleStopSession st"
| "step settings SessionOpen st = snd (onopen st)"
| "step settings (SessionMessage currentTime now message) st =
     snd (onmessage settings currentTime now message st)"
| "step settings SessionError st = onerror st"
| "step settings SessionClose st = onclose st"
| "step settings (SourceEnded node) st = onended node st"
| "step settings (AudioProcess inputData) st = onaudioprocess inputData st"

fun run :: "AppSettings \<Rightarrow> event list \<Rightarrow> TranslationView \<Rightarrow> TranslationView" where
  "run settings [] st = st"
| "run settings (ev # evs) st = run settings evs (step settings ev st)"



section \<open>The writing lab\<close>

text \<open>The state of \<^verbatim>\<open>TextPracticeView\<close> (lines 144-148); \<open>analysis = JNull\<close> is \<^verbatim>\<open>null\<close>.\<close>

record TextPracticeView =
  language :: string
  isAnalyzing :: bool
  analysis :: json
  isSpeaking :: bool
  audioContextRef :: "audio_context option"
  practice_effects :: "effect list"

definition initialTextPracticeView :: TextPracticeView where
  "initialTextPracticeView =
     \<lparr>language = ''English'', isAnalyzing = False, analysis = JNull, isSpeaking = False,
      audioContextRef = None, practice_effects = []\<rparr>"

text \<open>
  \<^verbatim>\<open>handleAnalyze\<close> (lines 154-196). \<open>response\<close> is the outcome of the request: \<open>Inl\<close> when
  constructing the client or \<^verbatim>\<open>generateContent\<close> raises, otherwise \<^verbatim>\<open>response.text\<close>, which may
  be \<^verbatim>\<open>undefined\<close>. An absent and an empty text are both falsy.
\<close>

definition handleAnalyze_catch :: "TextPracticeView \<Rightarrow> TextPracticeView" where
  "handleAnalyze_catch st =
     st\<lparr>practice_effects := practice_effects st @
          [ConsoleError ''Analysis failed:'',
           Alert ''Sorry, I couldn't analyze the text right now.'']\<rparr>"

definition handleAnalyze ::
  "(string \<Rightarrow> error + json) \<Rightarrow> string \<Rightarrow> error + string option \<Rightarrow> TextPracticeView \<Rightarrow> TextPracticeView" where
  "handleAnalyze JSON_parse textToSpeak response st =
     (if trim textToSpeak = [] then st
      else (let st1 = st\<lparr>isAnalyzing := True, analysis := JNull\<rparr>;
                st2 = (case response of
                         Inl e \<Rightarrow> handleAnalyze_catch st1
                       | Inr None \<Rightarrow> st1
                       | Inr (Some resultText) \<Rightarrow>
                           if resultText = [] then st1
                           else (case JSON_parse resultText of
                                   Inl e \<Rightarrow> handleAnalyze_catch st1
                                 | Inr parsed \<Rightarrow> st1\<lparr>analysis := parsed\<rparr>))
            in st2\<lparr>isAnalyzing := False\<rparr>))"

text \<open>
  \<^verbatim>\<open>handleSpeak\<close> (lines 198-244). \<open>response\<close> is \<open>Inl\<close> when the request raises, otherwise the
  value of the optional chain of line 217. \<open>newAudioContext\<close> is the outcome of the
  constructor, called when there is no context yet or it is closed. On success the buffer
  is started at once with the gain and rate of the settings, and the flag stays set until
  the \<^verbatim>\<open>onended\<close> callback of the node runs.
\<close>

definition handleSpeak_catch :: "TextPracticeView \<Rightarrow> TextPracticeView" where
  "handleSpeak_catch st =
     st\<lparr>practice_effects := practice_effects st @
          [ConsoleError ''TTS Error:'',
           Alert ''Sorry, I couldn't generate the speech for that text.''],
        isSpeaking := False\<rparr>"

definition handleSpeak ::
  "AppSettings \<Rightarrow> (error + audio_context) \<Rightarrow> string \<Rightarrow> error + string option \<Rightarrow>
   TextPracticeView \<Rightarrow> TextPracticeView" where
  "handleSpeak settings newAudioContext textToRead response st =
     (if trim textToRead = [] \<or> isSpeaking st then st
      else (let st1 = st\<lparr>isSpeaking := True\<rparr>
            in case response of
                 Inl e \<Rightarrow> handleSpeak_catch st1
               | Inr None \<Rightarrow> st1\<lparr>isSpeaking := False\<rparr>
               | Inr (Some base64Audio) \<Rightarrow>
                   if base64Audio = [] then st1\<lparr>isSpeaking := False\<rparr>
                   else (case (case audioContextRef st1 of
                                 None \<Rightarrow> newAudioContext
                               | Some ctx \<Rightarrow> if context_state ctx = closed then newAudioContext
                                             else Inr ctx) of
                           Inl e \<Rightarrow> handleSpeak_catch st1
                         | Inr audioCtx \<Rightarrow>
                             (let st2 = st1\<lparr>audioContextRef := Some audioCtx\<rparr>
                              in case decodeToAudioBuffer base64Audio 24000 1 of
                                   Inl e \<Rightarrow> handleSpeak_catch st2
                                 | Inr audioBuffer \<Rightarrow>
                                     st2\<lparr>practice_effects := practice_effects st2 @
                                           [SourceStartNow (volume settings) (playbackRate settings)]\<rparr>))))"

definition speak_onended :: "TextPracticeView \<Rightarrow> TextPracticeView" where
  "speak_onended st = st\<lparr>isSpeaking := False\<rparr>"

section \<open>The application: settings\<close>

text \<open>
  The state of \<^verbatim>\<open>App\<close> (lines 589-593) together with the browser's local storage.
  \<^verbatim>\<open>getInitialSettings\<close> (lines 77-98) reads the key \<^verbatim>\<open>echoLinguaSettings\<close>; reading a property
  of \<^verbatim>\<open>null\<close> raises inside the \<^verbatim>\<open>try\<close> block and ends in the fallback like a parse error.
  The only call of \<^verbatim>\<open>setSettings\<close> is the theme button (line 607), \<open>toggleTheme\<close>.
\<close>

datatype tab = translate | practice

record App =
  activeTab :: tab
  app_settings :: AppSettings
  textToSpeak_state :: string
  localStorage :: "string \<rightharpoonup> string"

definition getInitialSettings ::
  "(string \<Rightarrow> error + json) \<Rightarrow> bool \<Rightarrow> (string \<rightharpoonup> string) \<Rightarrow> AppSettings" where
  "getInitialSettings JSON_parse prefersDarkMode storage =
     (let fallback = \<lparr>theme = (if prefersDarkMode then dark else light), volume = 1,
                      playbackRate = 1\<rparr>
      in case storage ''echoLinguaSettings'' of
           None \<Rightarrow> fallback
         | Some savedSettings \<Rightarrow>
             if savedSettings = [] then fallback
             else (case JSON_parse savedSettings of
                     Inl e \<Rightarrow> fallback
                   | Inr parsed \<Rightarrow>
                       if parsed = JNull then fallback
                       else \<lparr>theme = (if json_get parsed ''theme'' = Some (JString ''dark'')
                                      then dark else light),
                             volume = (case json_get parsed ''volume'' of
                                         Some (JNumber v) \<Rightarrow> v | _ \<Rightarrow> 1),
                             playbackRate = (case json_get parsed ''playbackRate'' of
                                               Some (JNumber v) \<Rightarrow> v | _ \<Rightarrow> 1)\<rparr>))"

definition initialApp :: "(string \<Rightarrow> error + json) \<Rightarrow> bool \<Rightarrow> (string \<rightharpoonup> string) \<Rightarrow> App" where
  "initialApp JSON_parse prefersDarkMode storage =
     \<lparr>activeTab = translate,
      app_settings = getInitialSettings JSON_parse prefersDarkMode storage,
      textToSpeak_state = [], localStorage = storage\<rparr>"

definition toggleTheme :: "App \<Rightarrow> App" where
  "toggleTheme app =
     app\<lparr>app_settings := (app_settings app)
           \<lparr>theme := (if theme (app_settings app) = light then dark else light)\<rparr>\<rparr>"

definition setActiveTab :: "tab \<Rightarrow> App \<Rightarrow> App" where
  "setActiveTab t app = app\<lparr>activeTab := t\<rparr>"

definition setTextToSpeak :: "string \<Rightarrow> App \<Rightarrow> App" where
  "setTextToSpeak s app = app\<lparr>textToSpeak_state := s\<rparr>"

section \<open>Schedules and example inputs\<close>


text \<open>
  Inputs for the examples: how a start attempt can go, a state with two chunks playing, a
  buffer of \<open>n\<close> silent frames, and two chunks of silence lasting one and two seconds.
\<close>

definition micDenied :: start_env where
  "micDenied = \<lparr>getUserMedia = Inl NotAllowedError, newInputContext = Inl NotSupportedError,
                newOutputContext = Inl NotSupportedError, connect = Inl ApiError\<rparr>"





text \<open>
  What \<^verbatim>\<open>JSON.parse\<close> answers on the two texts of the examples: \<^verbatim>\<open>{}\<close> is the empty object
  and \<^verbatim>\<open>{\<close> is a syntax error. No other text is given to it.
\<close>

definition JSON_parse_sample :: "string \<Rightarrow> error + json" where
  "JSON_parse_sample s = (if s = ''{}'' then Inr (JObject []) else Inl SyntaxError)"

section \<open>Base64 round trip\<close>

lemma distinct_alphabet: "distinct b64_alphabet"
  by (simp add: b64_alphabet_def)

lemma length_alphabet: "length b64_alphabet = 64"
  by (simp add: b64_alphabet_def)

lemma b64_index_char: "n < 64 \<Longrightarrow> b64_index (b64_char n) = Some n"
  unfolding b64_index_def b64_char_def
  using map_of_zip_nth[of b64_alphabet "[0..<64]" n] distinct_alphabet length_alphabet
  by simp

lemma b64_char_not_pad: "n < 64 \<Longrightarrow> b64_char n \<noteq> CHR ''=''"
proof
  assume n: "n < 64" and e: "b64_char n = CHR ''=''"
  have "b64_index (CHR ''='') = None"
    by (simp add: b64_index_def b64_alphabet_def)
  with b64_index_char[OF n] e show False by simp
qed

lemma b64_char_not_ws: "n < 64 \<Longrightarrow> \<not> ascii_whitespace (b64_char n)"
proof
  assume n: "n < 64" and e: "ascii_whitespace (b64_char n)"
  have "\<forall>c. ascii_whitespace c \<longrightarrow> b64_index c = None"
    by (simp add: b64_index_def b64_alphabet_def ascii_whitespace_def)
  with b64_index_char[OF n] e show False by auto
qed



lemma strip_padding_Cons4:
  "c4 \<noteq> CHR ''='' \<Longrightarrow>
   strip_padding (c1 # c2 # c3 # c4 # X) = c1 # c2 # c3 # c4 # strip_padding X"
  by (cases "rev X"; cases "tl (rev X)") (auto simp: strip_padding_def split: list.splits)

lemma sextet_hi: "a < 256 \<Longrightarrow> b < 256 \<Longrightarrow> c < (256::nat) \<Longrightarrow> (a * 65536 + b * 256 + c) div 262144 < 64"
  by simp

lemma sextet_hi2: "a < 256 \<Longrightarrow> b < (256::nat) \<Longrightarrow> (a * 65536 + b * 256) div 262144 < 64"
  by simp

lemma sextet_hi1: "a < (256::nat) \<Longrightarrow> (a * 65536) div 262144 < 64"
  by simp

lemma sextet_mod: "(n::nat) mod 64 < 64"
  by simp

lemma pad_not_ws: "\<not> ascii_whitespace (CHR ''='')"
  by (simp add: ascii_whitespace_def)

lemma btoa_groups_no_ws:
  "\<forall>b\<in>set bs. b < 256 \<Longrightarrow>
   filter (\<lambda>c. \<not> ascii_whitespace c) (btoa_groups bs) = btoa_groups bs"
proof (induction bs rule: btoa_groups.induct)
  case (1 a b c rest)
  then have "a < 256" "b < 256" "c < 256" by simp_all
  note h = sextet_hi[OF this, THEN b64_char_not_ws]
  from 1 have "filter (\<lambda>c. \<not> ascii_whitespace c) (btoa_groups rest) = btoa_groups rest"
    by simp
  then show ?case
    by (simp only: btoa_groups.simps Let_def filter.simps h b64_char_not_ws[OF sextet_mod]
        not_False_eq_True if_True)
next
  case (2 a b)
  then have "a < 256" "b < 256" by simp_all
  note h = sextet_hi2[OF this, THEN b64_char_not_ws]
  show ?case
    by (simp only: btoa_groups.simps Let_def filter.simps h b64_char_not_ws[OF sextet_mod]
        pad_not_ws not_False_eq_True if_True)
next
  case (3 a)
  then have "a < 256" by simp
  note h = sextet_hi1[OF this, THEN b64_char_not_ws]
  show ?case
    by (simp only: btoa_groups.simps Let_def filter.simps h b64_char_not_ws[OF sextet_mod]
        pad_not_ws not_False_eq_True if_True)
next
  case 4
  then show ?case by simp
qed

lemma length_btoa_groups: "length (btoa_groups bs) mod 4 = 0"
  by (induction bs rule: btoa_groups.induct) (simp_all add: Let_def)

lemma recombine4:
  "n = q1 * 64 + r0 \<Longrightarrow> q1 = q2 * 64 + r1 \<Longrightarrow> q2 = q3 * 64 + r2 \<Longrightarrow>
   q3 * 262144 + r2 * 4096 + r1 * 64 + r0 = (n::nat)"
  by simp

lemma sextets_recombine:
  "(n div 262144) * 262144 + (n div 4096 mod 64) * 4096 + (n div 64 mod 64) * 64 + n mod 64 = (n::nat)"
proof -
  have a: "n div 4096 = n div 64 div 64" and b: "n div 262144 = n div 64 div 64 div 64"
    by (simp_all add: div_mult2_eq)
  show ?thesis
    unfolding a b
    by (rule recombine4[of n "n div 64" "n mod 64" "n div 64 div 64" "n div 64 mod 64"
          "n div 64 div 64 div 64" "n div 64 div 64 mod 64"]) simp_all
qed

lemma byte_split:
  "r < 256 \<Longrightarrow> (q * 256 + r) div 256 = (q::nat)"
  "r < 256 \<Longrightarrow> (q * 256 + r) mod 256 = (r::nat)"
  by simp_all

lemma times64_div: "x * 64 = (n::nat) \<Longrightarrow> x = n div 64"
  by auto

lemma bytes3:
  assumes "a < 256" "b < 256" "c < (256::nat)"
  shows "(a * 65536 + b * 256 + c) div 65536 = a"
    "(a * 65536 + b * 256 + c) div 256 mod 256 = b"
    "(a * 65536 + b * 256 + c) mod 256 = c"
proof -
  have e: "a * 65536 + b * 256 + c = (a * 256 + b) * 256 + c" by simp
  have d: "(a * 65536 + b * 256 + c) div 256 = a * 256 + b"
    unfolding e using assms(3) byte_split(1) by blast
  show "(a * 65536 + b * 256 + c) mod 256 = c"
    unfolding e using assms(3) byte_split(2) by blast
  show "(a * 65536 + b * 256 + c) div 256 mod 256 = b"
    unfolding d using assms(2) byte_split(2) by blast
  have "(a * 65536 + b * 256 + c) div 65536 = (a * 65536 + b * 256 + c) div 256 div 256"
    by (simp add: div_mult2_eq)
  also have "\<dots> = a" unfolding d using assms(2) byte_split(1) by blast
  finally show "(a * 65536 + b * 256 + c) div 65536 = a" .
qed

lemma atob_group4:
  assumes "a < 256" "b < 256" "c < (256::nat)"
  defines "n \<equiv> a * 65536 + b * 256 + c"
  shows "atob_groups (n div 262144 # n div 4096 mod 64 # n div 64 mod 64 # n mod 64 # rest)
         = a # b # c # atob_groups rest"
  unfolding atob_groups.simps Let_def sextets_recombine
  unfolding n_def using bytes3[OF assms(1-3)] by simp

lemma atob_group3:
  assumes "a < 256" "b < (256::nat)"
  defines "n \<equiv> a * 65536 + b * 256"
  shows "atob_groups [n div 262144, n div 4096 mod 64, n div 64 mod 64] = [a, b]"
proof -
  have z: "n mod 64 = 0" unfolding n_def by simp
  have "(n div 262144) * 262144 + (n div 4096 mod 64) * 4096 + (n div 64 mod 64) * 64 = n"
    using sextets_recombine[of n] z by simp
  then have "((n div 262144) * 4096 + (n div 4096 mod 64) * 64 + (n div 64 mod 64)) * 64 = n"
    by simp
  then have m: "(n div 262144) * 4096 + (n div 4096 mod 64) * 64 + (n div 64 mod 64) = n div 64"
    by (rule times64_div)
  have "n div 64 div 1024 = n div 65536" "n div 64 div 4 = n div 256"
    by (simp_all add: div_mult2_eq)
  then show ?thesis
    unfolding atob_groups.simps Let_def m
    using bytes3[OF assms(1,2), of 0] by (simp add: n_def)
qed

lemma atob_group2:
  assumes "a < (256::nat)"
  defines "n \<equiv> a * 65536"
  shows "atob_groups [n div 262144, n div 4096 mod 64] = [a]"
proof -
  have n: "n div 4096 = a * 16" unfolding n_def by simp
  have "n div 262144 = n div 4096 div 64" by (simp add: div_mult2_eq)
  then have "(n div 262144) * 64 + n div 4096 mod 64 = n div 4096"
    by simp
  then show ?thesis
    unfolding atob_groups.simps Let_def by (simp add: n)
qed

lemma b64_value_char: "n < 64 \<Longrightarrow> b64_value (b64_char n) = n"
  by (simp add: b64_value_def b64_index_char)

lemma b64_char_valid: "n < 64 \<Longrightarrow> (b64_index (b64_char n) = None) = False"
  by (simp add: b64_index_char)

lemma atob_body_Cons4:
  assumes "a < 256" "b < 256" "c < (256::nat)"
  defines "n \<equiv> a * 65536 + b * 256 + c"
  assumes "atob_body d = Inr bs"
  shows "atob_body (b64_char (n div 262144) # b64_char (n div 4096 mod 64) #
            b64_char (n div 64 mod 64) # b64_char (n mod 64) # d) = Inr (a # b # c # bs)"
proof -
  have hi: "n div 262144 < 64" unfolding n_def by (rule sextet_hi[OF assms(1-3)])
  have ok: "length d mod 4 \<noteq> 1" "\<not> list_ex (\<lambda>c. b64_index c = None) d"
    "atob_groups (map b64_value d) = bs"
    using assms(5) by (auto simp: atob_body_def split: if_splits)
  have len: "length (c1 # c2 # c3 # c4 # d) mod 4 = length d mod 4" for c1 c2 c3 c4 :: char
    by simp
  show ?thesis
    unfolding atob_body_def len list_ex_Cons_iff list_ex_Nil_iff list.map
      b64_char_valid[OF hi] b64_char_valid[OF sextet_mod] b64_value_char[OF hi]
      b64_value_char[OF sextet_mod]
    using ok atob_group4[OF assms(1-3), of "map b64_value d"]
    by (simp add: n_def)
qed

lemma atob_body_btoa_groups:
  "\<forall>b\<in>set bs. b < 256 \<Longrightarrow> atob_body (strip_padding (btoa_groups bs)) = Inr bs"
proof (induction bs rule: btoa_groups.induct)
  case (1 a b c rest)
  then have lt: "a < 256" "b < 256" "c < 256" and ih: "atob_body (strip_padding (btoa_groups rest)) = Inr rest"
    by simp_all
  have np: "b64_char ((a * 65536 + b * 256 + c) mod 64) \<noteq> CHR ''=''"
    by (rule b64_char_not_pad[OF sextet_mod])
  show ?case
    unfolding btoa_groups.simps Let_def strip_padding_Cons4[OF np]
    by (rule atob_body_Cons4[OF lt ih])
next
  case (2 a b)
  then have lt: "a < 256" "b < 256" by simp_all
  have hi: "(a * 65536 + b * 256) div 262144 < 64" by (rule sextet_hi2[OF lt])
  have np: "b64_char ((a * 65536 + b * 256) div 64 mod 64) \<noteq> CHR ''=''"
    by (rule b64_char_not_pad[OF sextet_mod])
  have s: "strip_padding [c1, c2, c3, CHR ''=''] = [c1, c2, c3]" if "c3 \<noteq> CHR ''=''" for c1 c2 c3
    using that by (simp add: strip_padding_def)
  show ?case
    unfolding btoa_groups.simps Let_def s[OF np] atob_body_def list_ex_Cons_iff list_ex_Nil_iff list.map
      b64_char_valid[OF hi] b64_char_valid[OF sextet_mod] b64_value_char[OF hi]
      b64_value_char[OF sextet_mod] atob_group3[OF lt]
    by simp
next
  case (3 a)
  then have lt: "a < 256" by simp
  have hi: "(a * 65536) div 262144 < 64" by (rule sextet_hi1[OF lt])
  have s: "strip_padding [c1, c2, CHR ''='', CHR ''=''] = [c1, c2]" for c1 c2
    by (simp add: strip_padding_def)
  show ?case
    unfolding btoa_groups.simps Let_def s atob_body_def list_ex_Cons_iff list_ex_Nil_iff list.map
      b64_char_valid[OF hi] b64_char_valid[OF sextet_mod] b64_value_char[OF hi]
      b64_value_char[OF sextet_mod] atob_group2[OF lt]
    by simp
next
  case 4
  show ?case by (simp add: strip_padding_def atob_body_def)
qed

lemma of_char_lt_256: "(of_char c :: nat) < 256"
  by (cases c) (simp add: of_char_def)

lemma atob_btoa: "atob (btoa binary) = Inr binary"
proof -
  let ?bs = "map of_char binary :: nat list"
  have lt: "\<forall>b\<in>set ?bs. b < 256" by (simp add: of_char_lt_256)
  have "map char_of ?bs = binary"
    by (simp add: comp_def)
  then show ?thesis
    by (simp add: atob_def btoa_def Let_def btoa_groups_no_ws[OF lt] length_btoa_groups
      atob_body_btoa_groups[OF lt])
qed

section \<open>PCM codec: decoding what was encoded\<close>


lemma decode_encode: "decode (encode bytes) = Inr bytes"
proof -
  have "word_of_nat (of_char (char_of (unat b))) = b" for b :: uint8
  proof -
    have "unat b < 256" using unsigned_less[of b, where ?'a = nat] by simp
    then show ?thesis by (simp add: of_char_of)
  qed
  then show ?thesis
    by (simp add: decode_def encode_def atob_btoa comp_def)
qed

lemma int16_bytes: "ucast (ucast w :: uint8) OR push_bit 8 (ucast (ucast (drop_bit 8 w) :: uint8)) = (w :: int16)"
  by (rule bit_word_eqI) (auto simp add: bit_simps)

lemma Int16Array_of_Uint8Array_of: "Int16Array_of (Uint8Array_of ws) = ws"
  by (induction ws) (simp_all add: int16_bytes)

lemma length_Uint8Array_of: "length (Uint8Array_of ws) = 2 * length ws"
  by (induction ws) simp_all

lemma new_Int16Array_Uint8Array_of: "new_Int16Array (Uint8Array_of ws) = Inr ws"
  by (simp add: new_Int16Array_def length_Uint8Array_of Int16Array_of_Uint8Array_of)

lemma frame_index_in_range:
  assumes "i < len div n" "c < n"
  shows "i * n + c < (len::nat)"
proof -
  have "Suc i * n \<le> (len div n) * n" using assms(1) by (simp only: mult_le_mono1 Suc_leI)
  also have "\<dots> \<le> len" by simp
  finally have "i * n + n \<le> len" by simp
  with assms(2) show ?thesis by simp
qed

lemma frame_lt_frameCount:
  assumes "i < len div n"
  shows "(of_nat i :: rat) < of_nat len / of_nat n"
proof -
  have n: "0 < n" using assms by (cases n) simp_all
  have "i * n + 0 < len" using frame_index_in_range[OF assms n] .
  then have "(of_nat (i * n) :: rat) < of_nat len" by (simp only: of_nat_less_iff add_0_right)
  then show ?thesis using n by (simp add: pos_less_divide_eq)
qed

lemma frameCount_le:
  assumes "\<not> (of_nat i :: rat) < of_nat len / of_nat n"
  shows "len div n \<le> i"
  using assms frame_lt_frameCount[of i len n] by (meson not_le_imp_less)

lemma fill_channel_eq:
  "length cd = length d div n \<Longrightarrow> c < n \<Longrightarrow> fc = of_nat (length d) / of_nat n \<Longrightarrow>
   fill_channel d n c fc i cd = take i cd @ map (pcm_value d n c) [i..<length d div n]"
proof (induction d n c fc i cd rule: fill_channel.induct)
  case (1 d n c fc i cd)
  let ?L = "length d div n"
  show ?case
  proof (cases "of_nat i < fc")
    case False
    then have "?L \<le> i" using frameCount_le 1(4) by blast
    then show ?thesis using False 1(2) by (subst fill_channel.simps) simp
  next
    case True
    show ?thesis
    proof (cases "i < ?L")
      case inb: True
      then have idx: "i * n + c < length d" using frame_index_in_range 1(3) by blast
      let ?cd = "cd[i := of_int (sint (d ! (i * n + c))) / 32768]"
      have "fill_channel d n c fc i cd = fill_channel d n c fc (Suc i) ?cd"
        using True idx by (subst fill_channel.simps) simp
      also have "\<dots> = take (Suc i) ?cd @ map (pcm_value d n c) [Suc i..<?L]"
        using 1(1)[OF True] 1(2-4) idx by simp
      also have "take (Suc i) ?cd = take i cd @ [pcm_value d n c i]"
        using inb 1(2) by (simp add: take_Suc_conv_app_nth pcm_value_def)
      finally show ?thesis using inb by (simp add: upt_conv_Cons)
    next
      case oob: False
      let ?cd = "if i * n + c < length d
                 then cd[i := of_int (sint (d ! (i * n + c))) / 32768] else cd"
      have same: "?cd = cd" using oob 1(2) by (simp add: list_update_beyond)
      have "fill_channel d n c fc i cd = fill_channel d n c fc (Suc i) ?cd"
        using True by (subst fill_channel.simps) simp
      also have "\<dots> = take (Suc i) ?cd @ map (pcm_value d n c) [Suc i..<?L]"
        using 1(1)[OF True] 1(2-4) same by simp
      finally show ?thesis using oob 1(2) same by simp
    qed
  qed
qed

lemma fill_channels_eq:
  "length (channels b) = n \<Longrightarrow> \<forall>cd\<in>set (channels b). length cd = length d div n \<Longrightarrow>
   fc = of_nat (length d) / of_nat n \<Longrightarrow>
   fill_channels d n fc c b =
     b\<lparr>channels := take c (channels b) @
          map (\<lambda>c. map (pcm_value d n c) [0..<length d div n]) [c..<n]\<rparr>"
proof (induction d n fc c b rule: fill_channels.induct)
  case (1 d n fc c b)
  show ?case
  proof (cases "c < n")
    case False
    then show ?thesis using 1(2) by (subst fill_channels.simps) simp
  next
    case True
    let ?row = "fill_channel d n c fc 0 (channels b ! c)"
    let ?b = "b\<lparr>channels := (channels b)[c := ?row]\<rparr>"
    have len: "length (channels b ! c) = length d div n"
      using 1(2,3) True by simp
    have row: "?row = map (pcm_value d n c) [0..<length d div n]"
      using fill_channel_eq[OF len True 1(4), of 0] by simp
    have a: "length (channels ?b) = n" using 1(2) by simp
    have b: "\<forall>cd\<in>set (channels ?b). length cd = length d div n"
      using 1(3) row by (auto dest!: set_update_subset_insert[THEN subsetD])
    have "fill_channels d n fc c b = fill_channels d n fc (Suc c) ?b"
      using True by (subst fill_channels.simps) simp
    also have "\<dots> = ?b\<lparr>channels := take (Suc c) (channels ?b) @
          map (\<lambda>c. map (pcm_value d n c) [0..<length d div n]) [Suc c..<n]\<rparr>"
      by (rule 1(1)[OF True a b 1(4)])
    also have "take (Suc c) (channels ?b) = take c (channels b) @ [?row]"
      using True 1(2) by (simp add: take_Suc_conv_app_nth)
    finally show ?thesis using True row by (simp add: upt_conv_Cons)
  qed
qed

lemma floor_frameCount: "nat \<lfloor>(of_nat m :: rat) / of_nat n\<rfloor> = m div n"
  by (simp add: floor_divide_of_nat_eq)

lemma decodeAudioData_Uint8Array_of:
  assumes "1 \<le> n" "n \<le> 32" "n \<le> length d" "8000 \<le> rate" "rate \<le> 96000"
  shows "decodeAudioData (Uint8Array_of d) rate n =
         Inr \<lparr>numberOfChannels = n, buffer_length = length d div n, sampleRate = rate,
              channels = map (\<lambda>c. map (pcm_value d n c) [0..<length d div n]) [0..<n]\<rparr>"
proof -
  have L: "1 \<le> length d div n" using assms(1,3) by (simp add: Suc_le_eq div_greater_zero_iff)
  let ?b = "\<lparr>numberOfChannels = n, buffer_length = length d div n, sampleRate = rate,
              channels = replicate n (replicate (length d div n) 0)\<rparr>"
  have cb: "createBuffer n (length d div n) rate = Inr ?b"
    using assms L by (simp add: createBuffer_def)
  have "fill_channels d n (of_nat (length d) / of_nat n) 0 ?b =
        ?b\<lparr>channels := take 0 (channels ?b) @
          map (\<lambda>c. map (pcm_value d n c) [0..<length d div n]) [0..<n]\<rparr>"
    by (rule fill_channels_eq) simp_all
  then show ?thesis
    by (simp add: decodeAudioData_def new_Int16Array_Uint8Array_of floor_frameCount cb)
qed

lemma decodeToAudioBuffer_encodeSamples:
  "decodeToAudioBuffer (encodeSamples x) rate n =
   decodeAudioData (Uint8Array_of (map (\<lambda>s. ToInt16 (s * 32768)) x)) rate n"
  by (simp add: decodeToAudioBuffer_def encodeSamples_def createBlob_def decode_encode)

lemma trunc_bounds:
  assumes "- 32768 \<le> y" "y < 32768"
  shows "- 32768 \<le> trunc y" "trunc y < 32768" "\<bar>of_int (trunc y) - y\<bar> < 1"
proof -
  show "- 32768 \<le> trunc y" using assms(1) unfolding trunc_def by (auto simp: le_floor_iff le_ceiling_iff; linarith?)
  show "trunc y < 32768" using assms(2) unfolding trunc_def by (auto simp: floor_less_iff ceiling_less_iff; linarith?)
  show "\<bar>of_int (trunc y) - y\<bar> < 1" unfolding trunc_def by (auto; linarith?)
qed

lemma sint_ToInt16:
  assumes "- 32768 \<le> y" "y < 32768"
  shows "sint (ToInt16 y) = trunc y"
proof -
  have "signed_take_bit 15 (trunc y) = trunc y"
    using trunc_bounds(1,2)[OF assms] by (simp add: signed_take_bit_int_eq_self)
  then show ?thesis by (simp add: ToInt16_def sint_sbintrunc')
qed

lemma quantisation_error:
  assumes "- 1 \<le> s" "s < 1"
  shows "\<bar>of_int (sint (ToInt16 (s * 32768))) / 32768 - s\<bar> < 1 / 32768"
proof -
  have b: "- 32768 \<le> s * 32768" "s * 32768 < 32768" using assms by simp_all
  define a :: rat where "a = of_int (trunc (s * 32768))"
  have lt: "\<bar>a - s * 32768\<bar> < 1" unfolding a_def by (rule trunc_bounds(3)[OF b])
  have e: "a / 32768 - s = (a - s * 32768) / 32768"
    by (simp add: field_simps)
  have "\<bar>a / 32768 - s\<bar> = \<bar>a - s * 32768\<bar> / 32768"
    by (simp only: e abs_divide abs_numeral)
  also have "\<dots> < 1 / 32768"
    using lt by (rule divide_strict_right_mono) simp
  finally show ?thesis unfolding sint_ToInt16[OF b] a_def .
qed

section \<open>Session handlers: what each one changes\<close>

lemma stopSources_fields:
  "transcripts (stopSources st) = transcripts st \<and>
   currentTextRef (stopSources st) = currentTextRef st \<and>
   interimTranscript (stopSources st) = interimTranscript st \<and>
   nextStartTimeRef (stopSources st) = nextStartTimeRef st \<and>
   isSessionActive (stopSources st) = isSessionActive st \<and>
   sessionPromiseRef (stopSources st) = sessionPromiseRef st \<and>
   outputAudioContextRef (stopSources st) = outputAudioContextRef st \<and>
   nodes_created (stopSources st) = nodes_created st"
proof (induction st rule: stopSources.induct)
  case (1 st)
  show ?case
  proof (cases "audioSourcesRef st")
    case Nil
    then show ?thesis by (subst (1 2 3 4 5 6 7 8) stopSources.simps) simp
  next
    case (Cons source rest)
    from 1[OF Cons] Cons show ?thesis
      by (subst (1 2 3 4 5 6 7 8) stopSources.simps) (simp add: emit_def)
  qed
qed



lemma onAudio_fields:
  "transcripts (snd (onAudio settings t message st)) = transcripts st \<and>
   currentTextRef (snd (onAudio settings t message st)) = currentTextRef st \<and>
   interimTranscript (snd (onAudio settings t message st)) = interimTranscript st"
  by (simp add: onAudio_def emit_def Let_def split: option.splits sum.splits)



lemma onInputTranscription_sources:
  "audioSourcesRef (onInputTranscription message st) = audioSourcesRef st \<and>
   effects (onInputTranscription message st) = effects st \<and>
   transcripts (onInputTranscription message st) = transcripts st"
  by (simp add: onInputTranscription_def Let_def split: option.splits)

lemma onmessage_snd:
  "snd (onmessage settings t now message st) =
     (let r = onAudio settings t message (onTurnComplete now message (onInputTranscription message st))
      in case fst r of Some e \<Rightarrow> snd r | None \<Rightarrow> onInterrupted message (snd r))"
  by (simp add: onmessage_def Let_def split: prod.splits option.splits)


lemma onInterrupted_fields:
  "transcripts (onInterrupted message st) = transcripts st \<and>
   currentTextRef (onInterrupted message st) = currentTextRef st \<and>
   interimTranscript (onInterrupted message st) = interimTranscript st"
  by (simp add: onInterrupted_def stopSources_fields)

lemma trim_sublist: "sublist (trim s) s"
proof -
  have "prefix (rev (dropWhile js_whitespace (rev (dropWhile js_whitespace s))))
          (dropWhile js_whitespace s)"
    using suffix_dropWhile[of js_whitespace "rev (dropWhile js_whitespace s)"]
    by (simp add: suffix_to_prefix)
  moreover have "suffix (dropWhile js_whitespace s) s" by (rule suffix_dropWhile)
  ultimately show ?thesis
    unfolding trim_def by (meson prefix_imp_sublist suffix_imp_sublist sublist_order.order_trans)
qed

lemma handleStopSession_idle: "sessionPromiseRef st = None \<Longrightarrow> handleStopSession st = st"
  by (simp add: handleStopSession_def)

lemma sessionPromiseRef_handleStopSession: "sessionPromiseRef (handleStopSession st) = None"
  by (cases "sessionPromiseRef st") (simp_all add: handleStopSession_def Let_def)

lemma transcripts_handleStopSession: "transcripts (handleStopSession st) = transcripts st"
  by (cases "sessionPromiseRef st")
     (simp_all add: handleStopSession_def Let_def emit_def split: promise.splits)

lemma handleStartSession_catch_fields:
  "transcripts (handleStartSession_catch st) = transcripts st"
  "interimTranscript (handleStartSession_catch st) = interimTranscript st"
  "currentTextRef (handleStartSession_catch st) = currentTextRef st"
  "nextStartTimeRef (handleStartSession_catch st) = nextStartTimeRef st"
  "audioSourcesRef (handleStartSession_catch st) = audioSourcesRef st"
  "sessionPromiseRef (handleStartSession_catch st) = sessionPromiseRef st"
  "isSessionActive (handleStartSession_catch st) = False"
  "effects (handleStartSession_catch st) = effects st @
     [ConsoleError ''Failed to start session:'',
      Alert ''Could not start microphone. Please check permissions.'']"
  by (simp_all add: handleStartSession_catch_def emit_def)

lemma handleStartSession_resume_fields:
  "transcripts (handleStartSession_resume env st) = transcripts st"
  "interimTranscript (handleStartSession_resume env st) = interimTranscript st"
  "currentTextRef (handleStartSession_resume env st) = currentTextRef st"
  "nextStartTimeRef (handleStartSession_resume env st) = nextStartTimeRef st"
  "audioSourcesRef (handleStartSession_resume env st) = audioSourcesRef st"
  by (simp_all add: handleStartSession_resume_def Let_def handleStartSession_catch_fields
      split: sum.splits)

lemma handleStartSession_fields:
  "transcripts (handleStartSession env st) = transcripts st"
  "interimTranscript (handleStartSession env st) = []"
  "currentTextRef (handleStartSession env st) = []"
  "nextStartTimeRef (handleStartSession env st) = 0"
  "audioSourcesRef (handleStartSession env st) = audioSourcesRef st"
  by (simp_all add: handleStartSession_def handleStartSession_resume_fields
      handleStartSession_begin_def)

lemma transcripts_onmessage:
  "prefix (transcripts st) (transcripts (snd (onmessage settings t now message st)))"
proof -
  let ?st1 = "onInputTranscription message st"
  let ?st2 = "onTurnComplete now message ?st1"
  let ?r = "onAudio settings t message ?st2"
  have "transcripts (snd (onmessage settings t now message st)) = transcripts ?st2"
    unfolding onmessage_snd Let_def
    by (cases "fst ?r"; simp add: onAudio_fields onInterrupted_fields)
  moreover have "prefix (transcripts ?st1) (transcripts ?st2)"
    by (simp add: onTurnComplete_def Let_def)
  ultimately show ?thesis by (simp add: onInputTranscription_sources)
qed

lemma transcripts_step: "prefix (transcripts st) (transcripts (step settings ev st))"
proof (cases ev)
  case (StartSession env)
  then show ?thesis by (simp add: handleStartSession_fields)
next
  case StopSession
  then show ?thesis by (simp add: transcripts_handleStopSession)
next
  case SessionOpen
  then show ?thesis by (simp add: onopen_def split: option.splits)
next
  case (SessionMessage t now message)
  then show ?thesis by (simp add: transcripts_onmessage)
next
  case SessionError
  then show ?thesis by (simp add: onerror_def transcripts_handleStopSession emit_def)
next
  case SessionClose
  then show ?thesis by (simp add: onclose_def emit_def)
next
  case (SourceEnded node)
  then show ?thesis by (simp add: onended_def)
next
  case (AudioProcess inputData)
  then show ?thesis by (simp add: onaudioprocess_def emit_def split: option.splits promise.splits)
qed

lemma transcripts_run: "prefix (transcripts st) (transcripts (run settings evs st))"
proof (induction evs arbitrary: st)
  case Nil
  show ?case by simp
next
  case (Cons ev evs)
  have "prefix (transcripts st) (transcripts (step settings ev st))" by (rule transcripts_step)
  also have "prefix \<dots> (transcripts (run settings evs (step settings ev st)))" by (rule Cons.IH)
  finally show ?case by simp
qed

section \<open>Scheduling audio chunks\<close>







section \<open>Claims\<close>

subsection \<open>C1: encoding and decoding samples\<close>

text \<open>
  C1, as amended. For every sample array \<open>x\<close> whose samples lie in the half-open range
  \<open>-1 \<le> s < 1\<close>, every channel count from 1 to 32 that is at most the number of samples, and
  every sample rate from 8000 to 96000, decoding the encoded form succeeds; the buffer has
  the given rate and channel count and \<open>length x div numChannels\<close> frames; and frame \<open>i\<close> of
  channel \<open>c\<close> differs from the interleaved sample \<open>x ! (i * numChannels + c)\<close> by less than
  \<open>1/32768\<close>. So no channel is swapped and no frame is shifted.
\<close>

theorem C1_roundtrip_below_full_scale:
  assumes "\<forall>s\<in>set x. - 1 \<le> s \<and> s < 1"
    and "1 \<le> numChannels" "numChannels \<le> 32" "numChannels \<le> length x"
    and "8000 \<le> rate" "rate \<le> 96000"
  shows "\<exists>buf. decodeToAudioBuffer (encodeSamples x) rate numChannels = Inr buf \<and>
           numberOfChannels buf = numChannels \<and> sampleRate buf = rate \<and>
           buffer_length buf = length x div numChannels \<and>
           length (channels buf) = numChannels \<and>
           (\<forall>c<numChannels. length (channels buf ! c) = length x div numChannels \<and>
              (\<forall>i<length x div numChannels.
                 \<bar>channels buf ! c ! i - x ! (i * numChannels + c)\<bar> < 1 / 32768))"
proof -
  let ?d = "map (\<lambda>s. ToInt16 (s * 32768)) x"
  let ?L = "length x div numChannels"
  let ?buf = "\<lparr>numberOfChannels = numChannels, buffer_length = ?L, sampleRate = rate,
     channels = map (\<lambda>c. map (pcm_value ?d numChannels c) [0..<?L]) [0..<numChannels]\<rparr>"
  have eq: "decodeToAudioBuffer (encodeSamples x) rate numChannels = Inr ?buf"
    unfolding decodeToAudioBuffer_encodeSamples
    using decodeAudioData_Uint8Array_of[of numChannels ?d rate] assms(2-6) by simp
  have err: "\<bar>channels ?buf ! c ! i - x ! (i * numChannels + c)\<bar> < 1 / 32768"
    if "c < numChannels" "i < ?L" for c i
  proof -
    have idx: "i * numChannels + c < length x" using frame_index_in_range that by blast
    then have "x ! (i * numChannels + c) \<in> set x" by simp
    then have "- 1 \<le> x ! (i * numChannels + c)" "x ! (i * numChannels + c) < 1"
      using assms(1) by blast+
    then show ?thesis using quantisation_error that idx by (simp add: pcm_value_def)
  qed
  show ?thesis
    by (rule exI[of _ ?buf]) (use eq err in simp)
qed

text \<open>
  The example of the specification: \<open>[0.5, -0.5]\<close> at 24000 Hz, one channel.
\<close>

theorem C1_roundtrip_below_full_scale_witness:
  "- 1 \<le> (1/2 :: rat) \<and> (1/2 :: rat) < 1 \<and> - 1 \<le> (- 1/2 :: rat) \<and> (- 1/2 :: rat) < 1 \<and>
   (\<exists>buf. decodeToAudioBuffer (encodeSamples [1/2, - 1/2]) 24000 1 = Inr buf \<and>
      numberOfChannels buf = 1 \<and> sampleRate buf = 24000 \<and> buffer_length buf = 2 \<and>
      \<bar>channels buf ! 0 ! 0 - 1/2\<bar> < 1 / 32768 \<and> \<bar>channels buf ! 0 ! 1 - (- 1/2)\<bar> < 1 / 32768)"
proof -
  have h: "\<forall>s\<in>set [1/2, - 1/2 :: rat]. - 1 \<le> s \<and> s < 1" by simp
  from C1_roundtrip_below_full_scale[OF h, of 1 24000] obtain buf where
    b: "decodeToAudioBuffer (encodeSamples [1/2, - 1/2]) 24000 1 = Inr buf"
      "numberOfChannels buf = 1" "sampleRate buf = 24000" "buffer_length buf = 2"
      "\<forall>c<1. length (channels buf ! c) = 2 \<and>
              (\<forall>i<2. \<bar>channels buf ! c ! i - [1/2, - 1/2] ! (i * 1 + c)\<bar> < 1 / 32768)"
    by auto
  from b(5) have c: "\<forall>i<2. \<bar>channels buf ! 0 ! i - [1/2, - 1/2] ! (i * 1 + 0)\<bar> < 1 / 32768"
    by blast
  from c[rule_format, of 0] c[rule_format, of 1]
  have "\<bar>channels buf ! 0 ! 0 - 1/2\<bar> < 1 / 32768" "\<bar>channels buf ! 0 ! 1 - (- 1/2)\<bar> < 1 / 32768"
    by simp_all
  with b(1-4) have "\<exists>buf. decodeToAudioBuffer (encodeSamples [1/2, - 1/2]) 24000 1 = Inr buf \<and>
      numberOfChannels buf = 1 \<and> sampleRate buf = 24000 \<and> buffer_length buf = 2 \<and>
      \<bar>channels buf ! 0 ! 0 - 1/2\<bar> < 1 / 32768 \<and> \<bar>channels buf ! 0 ! 1 - (- 1/2)\<bar> < 1 / 32768"
    by blast
  then show ?thesis by simp
qed

text \<open>
  C1 as stated fails at the upper end of the closed range. The sample \<open>1\<close> is scaled to
  \<open>32768\<close>, which \<open>ToInt16\<close> wraps to \<open>-32768\<close>, and comes back as \<open>-1\<close>: an error of \<open>2\<close>.
\<close>

theorem C1_roundtrip_full_scale_counterexample:
  "decodeToAudioBuffer (encodeSamples [1]) 24000 1 =
     Inr \<lparr>numberOfChannels = 1, buffer_length = 1, sampleRate = 24000, channels = [[- 1]]\<rparr>
   \<and> \<not> \<bar>(- 1 :: rat) - 1\<bar> \<le> 1 / 32768"
proof -
  have w: "sint (ToInt16 32768) = - 32768"
    by (simp add: ToInt16_def trunc_def)
  have "decodeAudioData (Uint8Array_of [ToInt16 (1 * 32768)]) 24000 1 =
        Inr \<lparr>numberOfChannels = 1, buffer_length = 1, sampleRate = 24000, channels = [[- 1]]\<rparr>"
    using decodeAudioData_Uint8Array_of[of 1 "[ToInt16 (1 * 32768)]" 24000]
    by (simp add: pcm_value_def w del: Uint8Array_of.simps of_int_sint)
  then show ?thesis
    by (simp add: decodeToAudioBuffer_encodeSamples del: Uint8Array_of.simps)
qed
subsection \<open>C2: persisting the settings\<close>

text \<open>
  C2 says that every change of the settings is written to local storage at the time of the
  change. The code does not do it: the one handler that changes the settings, the theme
  button, leaves the storage as it was, for every state of the application. With an empty
  storage and a system that prefers a light theme, the theme after the click is dark, the
  key \<^verbatim>\<open>echoLinguaSettings\<close> is still absent, and \<^verbatim>\<open>getInitialSettings\<close> at the next start
  returns the light theme again.
\<close>

theorem C2_theme_change_not_persisted:
  "localStorage (toggleTheme app) = localStorage app \<and>
   app_settings (toggleTheme app) \<noteq> app_settings app \<and>
   theme (app_settings (toggleTheme (initialApp JSON_parse False Map.empty))) = dark \<and>
   localStorage (toggleTheme (initialApp JSON_parse False Map.empty)) ''echoLinguaSettings'' = None \<and>
   theme (getInitialSettings JSON_parse False
            (localStorage (toggleTheme (initialApp JSON_parse False Map.empty)))) = light"
proof -
  have "theme (app_settings (toggleTheme app)) \<noteq> theme (app_settings app)"
    by (simp add: toggleTheme_def)
  then have "app_settings (toggleTheme app) \<noteq> app_settings app" by metis
  then show ?thesis
    by (simp add: toggleTheme_def initialApp_def getInitialSettings_def)
qed

subsection \<open>C3: a start attempt without a microphone\<close>

text \<open>
  C3, as amended. When \<^verbatim>\<open>getUserMedia\<close> rejects, the attempt shows the states
  \<open>handleStartSession_states\<close>: the active flag is set while the request is pending and is
  reset when it fails; the session reference is what it was before in both states, so no
  session is created; the handler logs the error and raises the alert, and takes no
  microphone stream.
\<close>

theorem C3_microphone_failure:
  assumes "getUserMedia env = Inl e"
  shows "map isSessionActive (handleStartSession_states env st) = [True, False] \<and>
         map sessionPromiseRef (handleStartSession_states env st) =
           [sessionPromiseRef st, sessionPromiseRef st] \<and>
         effects (handleStartSession env st) = effects st @
           [ConsoleError ''Failed to start session:'',
            Alert ''Could not start microphone. Please check permissions.''] \<and>
         microphoneStreamRef (handleStartSession env st) = microphoneStreamRef st"
  using assms
  by (simp add: handleStartSession_states_def handleStartSession_def handleStartSession_resume_def
      handleStartSession_catch_def emit_def handleStartSession_begin_def)

theorem C3_microphone_failure_witness:
  "getUserMedia micDenied = Inl NotAllowedError \<and>
   map isSessionActive (handleStartSession_states micDenied initialTranslationView) = [True, False] \<and>
   map sessionPromiseRef (handleStartSession_states micDenied initialTranslationView) = [None, None] \<and>
   effects (handleStartSession micDenied initialTranslationView) =
     [ConsoleError ''Failed to start session:'',
      Alert ''Could not start microphone. Please check permissions.'']"
proof -
  have h: "getUserMedia micDenied = Inl NotAllowedError" by (simp add: micDenied_def)
  from C3_microphone_failure[OF h, of initialTranslationView] h show ?thesis
    by (simp add: initialTranslationView_def)
qed

text \<open>
  C3 as stated fails: while the permission request is pending the active flag is true
  and there is no session.
\<close>

theorem C3_active_flag_counterexample:
  "getUserMedia micDenied = Inl NotAllowedError \<and>
   isSessionActive (hd (handleStartSession_states micDenied initialTranslationView)) \<and>
   sessionPromiseRef (hd (handleStartSession_states micDenied initialTranslationView)) = None"
  by (simp add: micDenied_def handleStartSession_states_def handleStartSession_begin_def
      initialTranslationView_def)

subsection \<open>C4: speech synthesis that fails or returns no audio\<close>

text \<open>
  C4, as amended. For a request that is made (the text is not blank and nothing is being
  spoken): when the request raises, or the payload is there but cannot be decoded, the
  handler raises the alert and resets \<open>isSpeaking\<close>; when the response carries no payload or
  an empty one, the handler resets \<open>isSpeaking\<close> and raises no alert.
\<close>

theorem C4_speak_failure:
  assumes "trim textToRead \<noteq> []" and "\<not> isSpeaking st"
  shows "(\<forall>e. \<not> isSpeaking (handleSpeak settings newAudioContext textToRead (Inl e) st) \<and>
              practice_effects (handleSpeak settings newAudioContext textToRead (Inl e) st) =
                practice_effects st @
                  [ConsoleError ''TTS Error:'',
                   Alert ''Sorry, I couldn't generate the speech for that text.'']) \<and>
         (\<forall>base64Audio e. base64Audio \<noteq> [] \<and> decodeToAudioBuffer base64Audio 24000 1 = Inl e \<longrightarrow>
              \<not> isSpeaking (handleSpeak settings newAudioContext textToRead (Inr (Some base64Audio)) st) \<and>
              practice_effects (handleSpeak settings newAudioContext textToRead (Inr (Some base64Audio)) st) =
                practice_effects st @
                  [ConsoleError ''TTS Error:'',
                   Alert ''Sorry, I couldn't generate the speech for that text.'']) \<and>
         \<not> isSpeaking (handleSpeak settings newAudioContext textToRead (Inr None) st) \<and>
         practice_effects (handleSpeak settings newAudioContext textToRead (Inr None) st) =
           practice_effects st \<and>
         \<not> isSpeaking (handleSpeak settings newAudioContext textToRead (Inr (Some [])) st) \<and>
         practice_effects (handleSpeak settings newAudioContext textToRead (Inr (Some [])) st) =
           practice_effects st"
  using assms
  by (auto simp add: handleSpeak_def handleSpeak_catch_def Let_def split: sum.splits option.splits)

theorem C4_speak_failure_witness:
  "trim ''hola'' \<noteq> [] \<and> \<not> isSpeaking initialTextPracticeView \<and>
   \<not> isSpeaking (handleSpeak defaultSettings (Inl NotSupportedError) ''hola'' (Inl ApiError)
        initialTextPracticeView) \<and>
   practice_effects (handleSpeak defaultSettings (Inl NotSupportedError) ''hola'' (Inl ApiError)
        initialTextPracticeView) =
     [ConsoleError ''TTS Error:'', Alert ''Sorry, I couldn't generate the speech for that text.''] \<and>
   \<not> isSpeaking (handleSpeak defaultSettings (Inl NotSupportedError) ''hola'' (Inr None)
        initialTextPracticeView) \<and>
   practice_effects (handleSpeak defaultSettings (Inl NotSupportedError) ''hola'' (Inr None)
        initialTextPracticeView) = []"
proof -
  have h: "trim ''hola'' \<noteq> []" "\<not> isSpeaking initialTextPracticeView"
    by (simp_all add: trim_def js_whitespace_def initialTextPracticeView_def)
  have e: "practice_effects initialTextPracticeView = []"
    by (simp add: initialTextPracticeView_def)
  from C4_speak_failure[OF h, of defaultSettings "Inl NotSupportedError"] h show ?thesis
    unfolding e by simp
qed

text \<open>
  C4 as stated fails: a response without an audio payload resets the flag but raises no
  alert.
\<close>

theorem C4_missing_payload_counterexample:
  "trim ''hola'' \<noteq> [] \<and> \<not> isSpeaking initialTextPracticeView \<and>
   practice_effects (handleSpeak defaultSettings (Inl NotSupportedError) ''hola'' (Inr None)
        initialTextPracticeView) = [] \<and>
   \<not> isSpeaking (handleSpeak defaultSettings (Inl NotSupportedError) ''hola'' (Inr None)
        initialTextPracticeView)"
  by (simp add: handleSpeak_def initialTextPracticeView_def trim_def js_whitespace_def)

subsection \<open>C5: text analysis with an unusable response\<close>

text \<open>
  C5, as amended. For a request that is made (the text is not blank): when the request
  raises, or the response text is not empty and \<^verbatim>\<open>JSON.parse\<close> rejects it, the handler raises
  the alert, the analysis stays \<^verbatim>\<open>null\<close> and the pending flag is reset; when the text parses,
  the parsed value becomes the analysis as it is, whichever members it has, and no alert is
  raised; when the response text is absent or empty, the analysis stays \<^verbatim>\<open>null\<close>, the pending
  flag is reset and no alert is raised.
\<close>

theorem C5_analysis_failure:
  assumes "trim textToSpeak \<noteq> []"
  shows "(\<forall>e. analysis (handleAnalyze JSON_parse textToSpeak (Inl e) st) = JNull \<and>
              \<not> isAnalyzing (handleAnalyze JSON_parse textToSpeak (Inl e) st) \<and>
              practice_effects (handleAnalyze JSON_parse textToSpeak (Inl e) st) =
                practice_effects st @
                  [ConsoleError ''Analysis failed:'',
                   Alert ''Sorry, I couldn't analyze the text right now.'']) \<and>
         (\<forall>resultText e. resultText \<noteq> [] \<and> JSON_parse resultText = Inl e \<longrightarrow>
              analysis (handleAnalyze JSON_parse textToSpeak (Inr (Some resultText)) st) = JNull \<and>
              \<not> isAnalyzing (handleAnalyze JSON_parse textToSpeak (Inr (Some resultText)) st) \<and>
              practice_effects (handleAnalyze JSON_parse textToSpeak (Inr (Some resultText)) st) =
                practice_effects st @
                  [ConsoleError ''Analysis failed:'',
                   Alert ''Sorry, I couldn't analyze the text right now.'']) \<and>
         (\<forall>resultText parsed. resultText \<noteq> [] \<and> JSON_parse resultText = Inr parsed \<longrightarrow>
              analysis (handleAnalyze JSON_parse textToSpeak (Inr (Some resultText)) st) = parsed \<and>
              \<not> isAnalyzing (handleAnalyze JSON_parse textToSpeak (Inr (Some resultText)) st) \<and>
              practice_effects (handleAnalyze JSON_parse textToSpeak (Inr (Some resultText)) st) =
                practice_effects st) \<and>
         analysis (handleAnalyze JSON_parse textToSpeak (Inr None) st) = JNull \<and>
         \<not> isAnalyzing (handleAnalyze JSON_parse textToSpeak (Inr None) st) \<and>
         practice_effects (handleAnalyze JSON_parse textToSpeak (Inr None) st) = practice_effects st \<and>
         analysis (handleAnalyze JSON_parse textToSpeak (Inr (Some [])) st) = JNull \<and>
         \<not> isAnalyzing (handleAnalyze JSON_parse textToSpeak (Inr (Some [])) st) \<and>
         practice_effects (handleAnalyze JSON_parse textToSpeak (Inr (Some [])) st) = practice_effects st"
  using assms
  by (simp add: handleAnalyze_def handleAnalyze_catch_def Let_def)

theorem C5_analysis_failure_witness:
  "trim ''hola'' \<noteq> [] \<and>
   analysis (handleAnalyze JSON_parse_sample ''hola'' (Inr (Some ''{''))
      initialTextPracticeView) = JNull \<and>
   \<not> isAnalyzing (handleAnalyze JSON_parse_sample ''hola'' (Inr (Some ''{''))
      initialTextPracticeView) \<and>
   practice_effects (handleAnalyze JSON_parse_sample ''hola'' (Inr (Some ''{''))
      initialTextPracticeView) =
     [ConsoleError ''Analysis failed:'', Alert ''Sorry, I couldn't analyze the text right now.''] \<and>
   practice_effects (handleAnalyze JSON_parse_sample ''hola'' (Inr (Some []))
      initialTextPracticeView) = []"
proof -
  have h: "trim ''hola'' \<noteq> []" by (simp add: trim_def js_whitespace_def)
  have e: "practice_effects initialTextPracticeView = []"
    by (simp add: initialTextPracticeView_def)
  have p: "JSON_parse_sample ''{'' = Inl SyntaxError" by (simp add: JSON_parse_sample_def)
  from C5_analysis_failure[OF h, of JSON_parse_sample initialTextPracticeView] h p show ?thesis
    unfolding e by simp
qed

text \<open>
  C5 as stated fails: an empty or absent response text raises no alert, and a response
  that parses but lacks the three members (here the empty object) is shown as the analysis.
\<close>

theorem C5_empty_response_counterexample:
  "trim ''hola'' \<noteq> [] \<and>
   practice_effects (handleAnalyze JSON_parse_sample ''hola'' (Inr (Some []))
      initialTextPracticeView) = [] \<and>
   practice_effects (handleAnalyze JSON_parse_sample ''hola'' (Inr None)
      initialTextPracticeView) = [] \<and>
   analysis (handleAnalyze JSON_parse_sample ''hola'' (Inr (Some ''{}''))
      initialTextPracticeView) = JObject [] \<and>
   practice_effects (handleAnalyze JSON_parse_sample ''hola'' (Inr (Some ''{}''))
      initialTextPracticeView) = []"
  by (simp add: handleAnalyze_def initialTextPracticeView_def trim_def js_whitespace_def
      JSON_parse_sample_def)

subsection \<open>C6: the interrupt signal\<close>



subsection \<open>C7: the cursor of the scheduler\<close>



subsection \<open>C8: the turn-complete signal\<close>

text \<open>
  C8. For every message with the turn-complete flag: afterwards the utterance buffer and
  the interim transcript are empty; when the buffer, as it is once the text of the same
  message has been appended, is blank after trimming, the transcript list is unchanged;
  otherwise exactly one entry is appended, whose text is the buffer and so contains the
  trimmed utterance.
\<close>

theorem C8_turn_complete:
  assumes "turnComplete message"
  shows "currentTextRef (snd (onmessage settings t now message st)) = [] \<and>
         interimTranscript (snd (onmessage settings t now message st)) = [] \<and>
         (trim (currentTextRef (onInputTranscription message st)) = [] \<longrightarrow>
            transcripts (snd (onmessage settings t now message st)) = transcripts st) \<and>
         (trim (currentTextRef (onInputTranscription message st)) \<noteq> [] \<longrightarrow>
            transcripts (snd (onmessage settings t now message st)) =
              transcripts st @
                [\<lparr>entry_id = now, speaker = ''user'',
                  entry_text = currentTextRef (onInputTranscription message st)\<rparr>] \<and>
            sublist (trim (currentTextRef (onInputTranscription message st)))
              (currentTextRef (onInputTranscription message st)))"
proof -
  let ?st1 = "onInputTranscription message st"
  let ?st2 = "onTurnComplete now message ?st1"
  let ?r = "onAudio settings t message ?st2"
  have f: "transcripts (snd (onmessage settings t now message st)) = transcripts ?st2"
    "currentTextRef (snd (onmessage settings t now message st)) = currentTextRef ?st2"
    "interimTranscript (snd (onmessage settings t now message st)) = interimTranscript ?st2"
    unfolding onmessage_snd Let_def
    by (cases "fst ?r"; simp add: onAudio_fields onInterrupted_fields)+
  have t1: "transcripts ?st1 = transcripts st" by (simp add: onInputTranscription_sources)
  show ?thesis
    unfolding f using assms t1 trim_sublist
    by (simp add: onTurnComplete_def Let_def)
qed

text \<open>An utterance is committed with its trailing blank; a blank buffer commits nothing.\<close>

theorem C8_turn_complete_witness:
  "turnComplete \<lparr>inputTranscription = Some (Some ''hola ''), turnComplete = True,
       inlineData = None, interrupted = False\<rparr> \<and>
   transcripts (snd (onmessage defaultSettings 0 7
       \<lparr>inputTranscription = Some (Some ''hola ''), turnComplete = True,
         inlineData = None, interrupted = False\<rparr> initialTranslationView)) =
     [\<lparr>entry_id = 7, speaker = ''user'', entry_text = ''hola ''\<rparr>] \<and>
   currentTextRef (snd (onmessage defaultSettings 0 7
       \<lparr>inputTranscription = Some (Some ''hola ''), turnComplete = True,
         inlineData = None, interrupted = False\<rparr> initialTranslationView)) = [] \<and>
   transcripts (snd (onmessage defaultSettings 0 7
       \<lparr>inputTranscription = Some (Some ''  ''), turnComplete = True,
         inlineData = None, interrupted = False\<rparr> initialTranslationView)) = []"
proof -
  let ?m = "\<lparr>inputTranscription = Some (Some ''hola ''), turnComplete = True,
       inlineData = None, interrupted = False\<rparr>"
  let ?w = "\<lparr>inputTranscription = Some (Some ''  ''), turnComplete = True,
       inlineData = None, interrupted = False\<rparr>"
  have b: "currentTextRef (onInputTranscription ?m initialTranslationView) = ''hola ''"
    "currentTextRef (onInputTranscription ?w initialTranslationView) = ''  ''"
    by (simp_all add: onInputTranscription_def initialTranslationView_def Let_def)
  have tr: "trim ''hola '' \<noteq> []" "trim ''  '' = []"
    by (simp_all add: trim_def js_whitespace_def)
  show ?thesis
    using C8_turn_complete[of ?m defaultSettings 0 7 initialTranslationView]
      C8_turn_complete[of ?w defaultSettings 0 7 initialTranslationView]
    unfolding b using tr by (simp add: initialTranslationView_def)
qed

subsection \<open>C9: stopping when idle\<close>

text \<open>
  C9. When the session reference is null, \<^verbatim>\<open>handleStopSession\<close> returns the state it was
  given: no effect is logged and nothing changes; and stopping twice is the same as
  stopping once.
\<close>

theorem C9_stop_when_idle:
  "(sessionPromiseRef st = None \<longrightarrow> handleStopSession st = st) \<and>
   handleStopSession (handleStopSession st) = handleStopSession st"
  using handleStopSession_idle[of st]
    handleStopSession_idle[OF sessionPromiseRef_handleStopSession, of st]
  by blast

text \<open>The initial state, and the state while a microphone request is pending.\<close>

theorem C9_stop_when_idle_witness:
  "sessionPromiseRef initialTranslationView = None \<and>
   handleStopSession initialTranslationView = initialTranslationView \<and>
   sessionPromiseRef (handleStartSession_begin initialTranslationView) = None \<and>
   handleStopSession (handleStartSession_begin initialTranslationView) =
     handleStartSession_begin initialTranslationView"
proof -
  have a: "sessionPromiseRef initialTranslationView = None"
    "sessionPromiseRef (handleStartSession_begin initialTranslationView) = None"
    by (simp_all add: initialTranslationView_def handleStartSession_begin_def)
  with C9_stop_when_idle[of initialTranslationView]
    C9_stop_when_idle[of "handleStartSession_begin initialTranslationView"]
  show ?thesis by blast
qed

subsection \<open>C10: the transcript list across session starts\<close>

text \<open>
  C10. \<^verbatim>\<open>handleStartSession\<close>, however it ends, leaves the transcript list and the active
  set as they were and empties the interim transcript, the utterance buffer and the cursor;
  and after any run of events the list the run started with is still a prefix of the
  transcript list, so no operation removes an entry.
\<close>

theorem C10_start_keeps_transcripts:
  "transcripts (handleStartSession env st) = transcripts st \<and>
   interimTranscript (handleStartSession env st) = [] \<and>
   currentTextRef (handleStartSession env st) = [] \<and>
   nextStartTimeRef (handleStartSession env st) = 0 \<and>
   audioSourcesRef (handleStartSession env st) = audioSourcesRef st \<and>
   prefix (transcripts st) (transcripts (run settings evs st))"
  by (simp add: handleStartSession_fields transcripts_run)


end
